theory Spec2Isabelle
  imports Complex_Main "HOL-Library.Word"
begin

section \<open>Selection tool (SelectionToolState.ts)\<close>

text \<open>
  The tool's \<^verbatim>\<open>apply\<close> method receives the visualization (whose shared state holds the
  committed selection and the transient highlight, both \<^verbatim>\<open>Uint32Array\<close>s of global node
  ids), the section drawer, the hit local node ids and the tool event. Elements of a
  \<^verbatim>\<open>Uint32Array\<close> are 32-bit words; an array is a list, since the source appends and filters
  by position.

  The event carries a \<^verbatim>\<open>type\<close> string and an optional DOM mouse event; only its \<^verbatim>\<open>ctrlKey\<close>
  flag is read. \<^verbatim>\<open>event.event?.ctrlKey\<close> is \<^verbatim>\<open>undefined\<close> (falsy) when the mouse event is
  absent.
\<close>

type_synonym Uint32Array = "32 word list"

record MouseEvent =
  ctrlKey :: bool

record IToolEvent =
  type :: string
  event :: "MouseEvent option"

record SharedState =
  selection :: Uint32Array
  highlight :: Uint32Array

text \<open>
  The drawer is a WebAssembly object; \<^verbatim>\<open>apply\<close> calls one method of it, which maps
  local node ids to global (source) ids. The method is a parameter of the model.
\<close>

record DiagramSectionDrawerBox =
  local_nodes_to_sources :: "Uint32Array \<Rightarrow> Uint32Array"

definition optional_ctrlKey :: "IToolEvent \<Rightarrow> bool" where
  "optional_ctrlKey ev = (case event ev of None \<Rightarrow> False | Some e \<Rightarrow> ctrlKey e)"

text \<open>
  \<^verbatim>\<open>apply\<close> (named \<open>apply_tool\<close>, since \<open>apply\<close> is a proof command): each branch ends
  in one \<^verbatim>\<open>set(...).commit()\<close>, which is the single state update of the model.
  \<^verbatim>\<open>arr.includes(n)\<close> is membership; \<^verbatim>\<open>arr.filter\<close> keeps order. The console output is
  left out.
\<close>

definition apply_tool ::
  "SharedState \<Rightarrow> DiagramSectionDrawerBox \<Rightarrow> Uint32Array \<Rightarrow> IToolEvent \<Rightarrow> SharedState" where
  "apply_tool sharedState drawer nodes ev =
     (let sourceNodes = local_nodes_to_sources drawer nodes in
      if type ev = ''release'' then
        (let sourceNodes' =
           (if optional_ctrlKey ev
            then filter (\<lambda>n. n \<notin> set sourceNodes) (selection sharedState) @ sourceNodes
            else sourceNodes)
         in sharedState\<lparr>selection := sourceNodes'\<rparr>)
      else sharedState\<lparr>highlight := sourceNodes\<rparr>)"

text \<open>
  The host command \<^verbatim>\<open>commit(ids, additive)\<close> of the specification's example is a
  release event over a drawer that maps the hit nodes to \<open>ids\<close>, with the control key giving the
  additive mode.
\<close>

definition release_event :: "bool \<Rightarrow> IToolEvent" where
  "release_event ctrl = \<lparr>type = ''release'', event = Some \<lparr>ctrlKey = ctrl\<rparr>\<rparr>"

definition id_drawer :: DiagramSectionDrawerBox where
  "id_drawer = \<lparr>local_nodes_to_sources = (\<lambda>nodes. nodes)\<rparr>"

section \<open>Glyph vertex shader (GLSL ES 3.00)\<close>

text \<open>
  The attributes and uniforms of the shader are finite numbers, modelled as reals. The
  results of the shader's arithmetic are \<^verbatim>\<open>highp float\<close> values, which besides finite
  numbers can be an infinity or not a number: dividing a nonzero number by zero gives
  the infinity of its sign, and dividing zero by zero gives no number. Arithmetic on
  finite values is exact in the model: rounding is not represented, and neither is the
  sign of a zero. GLSL does not require an operation on a NaN to return a NaN, so a
  \<open>NaN\<close> of the model stands for a result that is a NaN or is left open.
\<close>

datatype glfloat = Fin real | PInf | NInf | NaN

fun fneg :: "glfloat \<Rightarrow> glfloat" where
  "fneg (Fin a) = Fin (- a)"
| "fneg PInf = NInf"
| "fneg NInf = PInf"
| "fneg NaN = NaN"

fun fadd :: "glfloat \<Rightarrow> glfloat \<Rightarrow> glfloat" where
  "fadd (Fin a) (Fin b) = Fin (a + b)"
| "fadd NaN y = NaN"
| "fadd x NaN = NaN"
| "fadd PInf NInf = NaN"
| "fadd NInf PInf = NaN"
| "fadd PInf y = PInf"
| "fadd x PInf = PInf"
| "fadd NInf y = NInf"
| "fadd x NInf = NInf"

definition fsub :: "glfloat \<Rightarrow> glfloat \<Rightarrow> glfloat" where
  "fsub x y = fadd x (fneg y)"

fun fmul :: "glfloat \<Rightarrow> glfloat \<Rightarrow> glfloat" where
  "fmul (Fin a) (Fin b) = Fin (a * b)"
| "fmul NaN y = NaN"
| "fmul x NaN = NaN"
| "fmul (Fin a) PInf = (if a = 0 then NaN else if 0 < a then PInf else NInf)"
| "fmul (Fin a) NInf = (if a = 0 then NaN else if 0 < a then NInf else PInf)"
| "fmul PInf (Fin b) = (if b = 0 then NaN else if 0 < b then PInf else NInf)"
| "fmul NInf (Fin b) = (if b = 0 then NaN else if 0 < b then NInf else PInf)"
| "fmul PInf PInf = PInf"
| "fmul PInf NInf = NInf"
| "fmul NInf PInf = NInf"
| "fmul NInf NInf = PInf"

fun fdiv :: "glfloat \<Rightarrow> glfloat \<Rightarrow> glfloat" where
  "fdiv (Fin a) (Fin b) =
     (if b \<noteq> 0 then Fin (a / b)
      else if a = 0 then NaN else if 0 < a then PInf else NInf)"
| "fdiv NaN y = NaN"
| "fdiv x NaN = NaN"
| "fdiv (Fin a) PInf = Fin 0"
| "fdiv (Fin a) NInf = Fin 0"
| "fdiv PInf (Fin b) = (if 0 \<le> b then PInf else NInf)"
| "fdiv NInf (Fin b) = (if 0 \<le> b then NInf else PInf)"
| "fdiv PInf PInf = NaN"
| "fdiv PInf NInf = NaN"
| "fdiv NInf PInf = NaN"
| "fdiv NInf NInf = NaN"

text \<open>The comparison \<^verbatim>\<open>x < y\<close>: false whenever an operand is a NaN.\<close>

fun flt :: "glfloat \<Rightarrow> glfloat \<Rightarrow> bool" where
  "flt (Fin a) (Fin b) = (a < b)"
| "flt NaN y = False"
| "flt x NaN = False"
| "flt x NInf = False"
| "flt NInf y = True"
| "flt PInf y = False"
| "flt x PInf = True"

text \<open>
  The built-in functions as GLSL defines them: \<^verbatim>\<open>min(x, y)\<close> returns \<open>y\<close> if \<open>y < x\<close> and
  \<open>x\<close> otherwise, \<^verbatim>\<open>max(x, y)\<close> returns \<open>y\<close> if \<open>x < y\<close> and \<open>x\<close> otherwise, and
  \<^verbatim>\<open>clamp(x, lo, hi)\<close> is \<^verbatim>\<open>min(max(x, lo), hi)\<close>. The shader calls \<^verbatim>\<open>min\<close> only; the clamp
  is the one of the specification, for comparison.
\<close>

definition fmin :: "glfloat \<Rightarrow> glfloat \<Rightarrow> glfloat" where
  "fmin x y = (if flt y x then y else x)"



text \<open>
  A \<^verbatim>\<open>vec2\<close>/\<^verbatim>\<open>vec4\<close> is a tuple of components; a \<^verbatim>\<open>mat4\<close> is the tuple of its four columns,
  as GLSL stores it. \<open>vec2\<close>, \<open>vec4\<close> and \<open>mat4\<close> hold finite inputs, \<open>fvec2\<close> and \<open>fvec4\<close>
  computed values.
\<close>

type_synonym vec2 = "real \<times> real"
type_synonym vec4 = "real \<times> real \<times> real \<times> real"
type_synonym mat4 = "vec4 \<times> vec4 \<times> vec4 \<times> vec4"
type_synonym fvec2 = "glfloat \<times> glfloat"
type_synonym fvec4 = "glfloat \<times> glfloat \<times> glfloat \<times> glfloat"

text \<open>
  The per-vertex inputs (\<^verbatim>\<open>in\<close>), the uniforms and the outputs of \<^verbatim>\<open>main\<close>. The uniform
  \<^verbatim>\<open>boundTextureIndex\<close> is a 32-bit \<^verbatim>\<open>int\<close>. \<open>gl_Position\<close> is \<open>None\<close> where the shader's
  language does not determine it (see \<open>glsl_int\<close>).
\<close>

record vertex_in =
  position :: vec2
  positionOld :: vec2
  positionStartTime :: real
  positionDuration :: real
  exists :: real
  existsOld :: real
  existsStartTime :: real
  existsDuration :: real
  textureIndex :: real
  charCoord :: vec2

record uniforms =
  transform :: mat4
  time :: real
  boundTextureIndex :: int

record vertex_out =
  gl_Position :: "fvec4 option"
  charCoordOut :: vec2
  curExists :: glfloat

text \<open>GLSL operators: scalar times vector, vector sum, componentwise product, matrix times vector.\<close>

definition scale2 :: "glfloat \<Rightarrow> vec2 \<Rightarrow> fvec2" where
  "scale2 k v = (fmul k (Fin (fst v)), fmul k (Fin (snd v)))"

definition add2 :: "fvec2 \<Rightarrow> fvec2 \<Rightarrow> fvec2" where
  "add2 a b = (fadd (fst a) (fst b), fadd (snd a) (snd b))"

fun mul4 :: "fvec4 \<Rightarrow> vec4 \<Rightarrow> fvec4" where
  "mul4 (a0, a1, a2, a3) (b0, b1, b2, b3) =
     (fmul a0 (Fin b0), fmul a1 (Fin b1), fmul a2 (Fin b2), fmul a3 (Fin b3))"

fun mat_vec :: "mat4 \<Rightarrow> fvec4 \<Rightarrow> fvec4" where
  "mat_vec ((c00, c01, c02, c03), (c10, c11, c12, c13), (c20, c21, c22, c23), (c30, c31, c32, c33))
           (x, y, z, w) =
     (fadd (fadd (fadd (fmul (Fin c00) x) (fmul (Fin c10) y)) (fmul (Fin c20) z)) (fmul (Fin c30) w),
      fadd (fadd (fadd (fmul (Fin c01) x) (fmul (Fin c11) y)) (fmul (Fin c21) z)) (fmul (Fin c31) w),
      fadd (fadd (fadd (fmul (Fin c02) x) (fmul (Fin c12) y)) (fmul (Fin c22) z)) (fmul (Fin c32) w),
      fadd (fadd (fadd (fmul (Fin c03) x) (fmul (Fin c13) y)) (fmul (Fin c23) z)) (fmul (Fin c33) w))"

text \<open>
  \<^verbatim>\<open>int(x)\<close> of a float drops the fractional part. The result is a 32-bit integer; for a
  value whose integer part does not fit, GLSL does not say what the conversion returns,
  and the model returns \<open>None\<close>.
\<close>

definition glsl_int :: "real \<Rightarrow> int option" where
  "glsl_int x =
     (let k = (if 0 \<le> x then \<lfloor>x\<rfloor> else \<lceil>x\<rceil>)
      in if - (2 ^ 31) \<le> k \<and> k < 2 ^ 31 then Some k else None)"

text \<open>The locals of \<^verbatim>\<open>main\<close>, each as a function of the inputs it is computed from.\<close>

definition positionPer :: "uniforms \<Rightarrow> vertex_in \<Rightarrow> glfloat" where
  "positionPer u v =
     fmin (fdiv (fsub (Fin (time u)) (Fin (positionStartTime v))) (Fin (positionDuration v)))
          (Fin 1)"

definition curPosition :: "uniforms \<Rightarrow> vertex_in \<Rightarrow> fvec2" where
  "curPosition u v =
     add2 (scale2 (positionPer u v) (position v))
          (scale2 (fsub (Fin 1) (positionPer u v)) (positionOld v))"

definition existsPer :: "uniforms \<Rightarrow> vertex_in \<Rightarrow> glfloat" where
  "existsPer u v =
     fmin (fdiv (fsub (Fin (time u)) (Fin (existsStartTime v))) (Fin (existsDuration v)))
          (Fin 1)"

definition main :: "uniforms \<Rightarrow> vertex_in \<Rightarrow> vertex_out" where
  "main u v =
     \<lparr>gl_Position =
        (case glsl_int (textureIndex v) of
           None \<Rightarrow> None
         | Some i \<Rightarrow>
             Some (if boundTextureIndex u = i
                   then mul4 (mat_vec (transform u)
                                (fst (curPosition u v), snd (curPosition u v), Fin 0, Fin 1))
                             (2, 2, 2, 1)
                   else (Fin 0, Fin 0, Fin 0, Fin 0))),
      charCoordOut = charCoord v,
      curExists =
        fadd (fmul (existsPer u v) (Fin (exists v)))
             (fmul (fsub (Fin 1) (existsPer u v)) (Fin (existsOld v)))\<rparr>"

text \<open>
  The quotient \<open>(t - startTime) / duration\<close> in the shader's arithmetic: the first operand
  of \<^verbatim>\<open>min\<close> in both fractions.
\<close>

definition quotient :: "real \<Rightarrow> real \<Rightarrow> real \<Rightarrow> glfloat" where
  "quotient t startTime duration = fdiv (fsub (Fin t) (Fin startTime)) (Fin duration)"

text \<open>The inputs at which the statements below are evaluated.\<close>

definition identity4 :: mat4 where
  "identity4 = ((1, 0, 0, 0), (0, 1, 0, 0), (0, 0, 1, 0), (0, 0, 0, 1))"

definition sample_vertex :: vertex_in where
  "sample_vertex =
     \<lparr>position = (1, 0), positionOld = (0, 0), positionStartTime = 1, positionDuration = 1,
      exists = 1, existsOld = 0, existsStartTime = 1, existsDuration = 1,
      textureIndex = 0, charCoord = (0, 0)\<rparr>"

definition sample_uniforms :: "real \<Rightarrow> uniforms" where
  "sample_uniforms t = \<lparr>transform = identity4, time = t, boundTextureIndex = 0\<rparr>"

section \<open>Configuration component dispatch (ConfigTypeComp.tsx)\<close>

text \<open>
  The nine configuration classes the dispatcher tests for. The classes themselves are
  not part of the component; \<^verbatim>\<open>value instanceof C\<close> is a parameter \<open>instanceof\<close> of the
  model, so a value may be an instance of several of the classes or of none.
\<close>

datatype config_class =
  IntConfig | FloatConfig | LabelConfig | CompositeConfig | ChoiceConfig
  | ButtonConfig | TextOutputConfig | PanelConfig | LocationConfig

datatype component =
  IntConfigComp | FloatConfigComp | LabelConfigComp | CompositeConfigComp | ChoiceConfigComp
  | ButtonConfigComp | TextOutputConfigComp | PanelConfigComp | LocationConfigComp

text \<open>
  A JSX expression builds an element: the component with its props (the value, and for
  three components the prop \<^verbatim>\<open>ChildComp={ConfigTypeComp}\<close>), or the empty fragment.
\<close>

datatype child_comp = ConfigTypeComp_itself

datatype 'v element = Element component 'v "child_comp option" | Fragment

definition ConfigTypeComp :: "('v \<Rightarrow> config_class \<Rightarrow> bool) \<Rightarrow> 'v \<Rightarrow> 'v element" where
  "ConfigTypeComp instanceof val =
     (if instanceof val IntConfig then Element IntConfigComp val None
      else if instanceof val FloatConfig then Element FloatConfigComp val None
      else if instanceof val LabelConfig then Element LabelConfigComp val (Some ConfigTypeComp_itself)
      else if instanceof val CompositeConfig
        then Element CompositeConfigComp val (Some ConfigTypeComp_itself)
      else if instanceof val ChoiceConfig then Element ChoiceConfigComp val None
      else if instanceof val ButtonConfig then Element ButtonConfigComp val None
      else if instanceof val TextOutputConfig then Element TextOutputConfigComp val None
      else if instanceof val PanelConfig then Element PanelConfigComp val None
      else if instanceof val LocationConfig
        then Element LocationConfigComp val (Some ConfigTypeComp_itself)
      else Fragment)"

text \<open>The handled classes in the order of the tests, and the element built for each.\<close>

definition handled_classes :: "config_class list" where
  "handled_classes =
     [IntConfig, FloatConfig, LabelConfig, CompositeConfig, ChoiceConfig,
      ButtonConfig, TextOutputConfig, PanelConfig, LocationConfig]"

fun element_for :: "config_class \<Rightarrow> 'v \<Rightarrow> 'v element" where
  "element_for IntConfig val = Element IntConfigComp val None"
| "element_for FloatConfig val = Element FloatConfigComp val None"
| "element_for LabelConfig val = Element LabelConfigComp val (Some ConfigTypeComp_itself)"
| "element_for CompositeConfig val = Element CompositeConfigComp val (Some ConfigTypeComp_itself)"
| "element_for ChoiceConfig val = Element ChoiceConfigComp val None"
| "element_for ButtonConfig val = Element ButtonConfigComp val None"
| "element_for TextOutputConfig val = Element TextOutputConfigComp val None"
| "element_for PanelConfig val = Element PanelConfigComp val None"
| "element_for LocationConfig val = Element LocationConfigComp val (Some ConfigTypeComp_itself)"

text \<open>
  Values for evaluation: a value is represented by the list of classes it is an instance
  of.
\<close>

definition instance_of_listed :: "config_class list \<Rightarrow> config_class \<Rightarrow> bool" where
  "instance_of_listed cs c = (c \<in> set cs)"

section \<open>Diagram summary (DiagramSummary.tsx)\<close>

text \<open>
  The fields of the diagram state that the component reads (\<^verbatim>\<open>diagram.type\<close> is named
  \<open>diagram_type\<close> here), and the component's own state: the two \<^verbatim>\<open>useState\<close> flags of the
  import dialogs. The section classes are not part of the component, so
  \<^verbatim>\<open>section instanceof FileSource\<close> is a parameter \<open>isFileSource\<close>.
\<close>

record 's DiagramState =
  diagram_type :: string
  sections :: "'s list"
  selectedNodes :: Uint32Array

record 's DiagramSummary =
  diagram :: "'s DiagramState"
  showDDDMPInputModal :: bool
  showBuddyInputModal :: bool

text \<open>
  The props of an \<^verbatim>\<open>AddSectionButton\<close>: its label, its click handler, its \<^verbatim>\<open>disabled\<close> flag
  and whether the tooltip carries the extra line that explains why it is disabled.
\<close>

record 's AddSectionButton =
  children :: string
  onClick :: "'s DiagramSummary \<Rightarrow> 's DiagramSummary"
  disabled :: bool
  hover_explains :: bool

definition canCreateFromFile :: "('s \<Rightarrow> bool) \<Rightarrow> 's DiagramState \<Rightarrow> bool" where
  "canCreateFromFile isFileSource d = (\<not> list_ex isFileSource (sections d))"

definition canCreateFromSelection :: "'s DiagramState \<Rightarrow> bool" where
  "canCreateFromSelection d = (length (selectedNodes d) > 0)"

definition startCreatingDDDMPSection :: "'s DiagramSummary \<Rightarrow> 's DiagramSummary" where
  "startCreatingDDDMPSection st = st\<lparr>showDDDMPInputModal := True\<rparr>"


definition startCreatingBuddySection :: "'s DiagramSummary \<Rightarrow> 's DiagramSummary" where
  "startCreatingBuddySection st = st\<lparr>showBuddyInputModal := True\<rparr>"




definition createSelectionSection ::
  "(Uint32Array \<Rightarrow> 's DiagramState \<Rightarrow> 's DiagramState) \<Rightarrow> 's DiagramSummary \<Rightarrow> 's DiagramSummary" where
  "createSelectionSection createSectionFromSelection st =
     st\<lparr>diagram := createSectionFromSelection (selectedNodes (diagram st)) (diagram st)\<rparr>"

text \<open>
  The three buttons of the rendered row. The Buddy button is rendered only when the
  diagram's type is not \<^verbatim>\<open>MTBDD\<close> (\<open>None\<close> is the \<^verbatim>\<open>undefined\<close> child).
\<close>

definition load_dddump_button :: "('s \<Rightarrow> bool) \<Rightarrow> 's DiagramState \<Rightarrow> 's AddSectionButton" where
  "load_dddump_button isFileSource d =
     \<lparr>children = ''Load from dddump'',
      onClick = startCreatingDDDMPSection,
      disabled = (\<not> canCreateFromFile isFileSource d),
      hover_explains = (\<not> canCreateFromFile isFileSource d)\<rparr>"

definition load_buddy_button ::
  "('s \<Rightarrow> bool) \<Rightarrow> 's DiagramState \<Rightarrow> 's AddSectionButton option" where
  "load_buddy_button isFileSource d =
     (if diagram_type d = ''MTBDD'' then None
      else Some \<lparr>children = ''Load from Buddy'',
                 onClick = startCreatingBuddySection,
                 disabled = (\<not> canCreateFromFile isFileSource d),
                 hover_explains = (\<not> canCreateFromFile isFileSource d)\<rparr>)"

definition create_from_selection_button ::
  "(Uint32Array \<Rightarrow> 's DiagramState \<Rightarrow> 's DiagramState) \<Rightarrow> 's DiagramState \<Rightarrow> 's AddSectionButton" where
  "create_from_selection_button createSectionFromSelection d =
     \<lparr>children = ''Create from selection'',
      onClick = createSelectionSection createSectionFromSelection,
      disabled = (\<not> canCreateFromSelection d),
      hover_explains = (\<not> canCreateFromSelection d)\<rparr>"









section \<open>Section index mapper\<close>

text \<open>
  The mapper is implemented in the WebAssembly part of the repository; the definitions of
  this section follow the specification's description of it (section 4.1). Global node
  ids are 32-bit words, as in the arrays exchanged with the drawer; a local index is a
  position in the section's sequence.
\<close>

text \<open>
  Modelled from the spec: the \<^verbatim>\<open>MappingError\<close> of the error taxonomy, and a \<^verbatim>\<open>Section\<close>
  as far as the mapper is concerned: "holds an ordered sequence of global node ids
  defining local index 0..n-1, the reverse map".
\<close>

datatype mapping_error = MappingError

record Section =
  sourceIds :: Uint32Array
  globalToLocal :: "32 word \<rightharpoonup> nat"

text \<open>
  Modelled from the spec: the lookup built by \<^verbatim>\<open>create\<close>. "Assigns local index = position
  in the given order; builds a global to local lookup": every id is entered with its
  position, in the order of the sequence. A section lists each node of its view once
  (the mapping is bidirectional, with a reverse map); the specification does not say
  what the lookup holds for a sequence that repeats an id, and no statement below
  depends on it.
\<close>

fun build_lookup :: "nat \<Rightarrow> Uint32Array \<Rightarrow> (32 word \<rightharpoonup> nat) \<Rightarrow> (32 word \<rightharpoonup> nat)" where
  "build_lookup i [] m = m"
| "build_lookup i (g # gs) m = build_lookup (Suc i) gs (m(g \<mapsto> i))"

text \<open>Modelled from the spec: \<^verbatim>\<open>create(sourceIds)\<close> of the Section Index Mapper.\<close>

definition create :: "Uint32Array \<Rightarrow> Section" where
  "create ids = \<lparr>sourceIds = ids, globalToLocal = build_lookup 0 ids Map.empty\<rparr>"

text \<open>
  Modelled from the spec: \<^verbatim>\<open>localToSource\<close>. "Array indexing; out-of-range local index
  fails with MappingError."
\<close>

fun localToSource :: "Section \<Rightarrow> nat list \<Rightarrow> mapping_error + Uint32Array" where
  "localToSource s [] = Inr []"
| "localToSource s (i # locals) =
     (if i < length (sourceIds s)
      then (case localToSource s locals of
              Inl e \<Rightarrow> Inl e
            | Inr globals \<Rightarrow> Inr (sourceIds s ! i # globals))
      else Inl MappingError)"

text \<open>
  Modelled from the spec: \<^verbatim>\<open>sourceToLocal\<close>. "Entries not present in the section are
  silently omitted."
\<close>

fun sourceToLocal :: "Section \<Rightarrow> Uint32Array \<Rightarrow> nat list" where
  "sourceToLocal s [] = []"
| "sourceToLocal s (g # globals) =
     (case globalToLocal s g of
        None \<Rightarrow> sourceToLocal s globals
      | Some i \<Rightarrow> i # sourceToLocal s globals)"

text \<open>
  Modelled from the spec: the round trip \<^verbatim>\<open>sourceToLocal(localToSource(L))\<close>; a failure
  of the first map propagates.
\<close>

definition round_trip :: "Section \<Rightarrow> nat list \<Rightarrow> mapping_error + nat list" where
  "round_trip s locals =
     (case localToSource s locals of
        Inl e \<Rightarrow> Inl e
      | Inr globals \<Rightarrow> Inr (sourceToLocal s globals))"

text \<open>
  Modelled from the spec: a sequence of valid local indices of a section, every index
  below the length of the section's sequence.
\<close>

definition valid_locals :: "Section \<Rightarrow> nat list \<Rightarrow> bool" where
  "valid_locals s locals = list_all (\<lambda>i. i < length (sourceIds s)) locals"

section \<open>Layout engine: layer assignment\<close>

text \<open>
  The layout engine is implemented in the WebAssembly part of the repository; the
  definitions of this section follow the specification (sections 3, 4.2 and 9). A graph
  is an arena of nodes referenced by integer id, with a list of labelled edges.
\<close>

text \<open>
  Modelled from the spec: \<^verbatim>\<open>Node{id, kind, variable index | value}\<close>,
  \<^verbatim>\<open>Edge{source, target, label}\<close>, the \<^verbatim>\<open>DiagramGraph\<close> and the \<^verbatim>\<open>LayoutError\<close> of the
  error taxonomy (the node's \<^verbatim>\<open>id\<close> is named \<open>node_id\<close> here).
\<close>

datatype node_kind = decision nat | terminal int

record Node =
  node_id :: nat
  kind :: node_kind

record Edge =
  source :: nat
  target :: nat
  label :: nat

record DiagramGraph =
  nodes :: "Node list"
  edges :: "Edge list"

datatype layout_error = LayoutError

text \<open>
  Modelled from the spec: the ids of the graph's nodes, its edges as pairs of source and
  target, and the test for a terminal node.
\<close>

definition node_ids :: "DiagramGraph \<Rightarrow> nat list" where
  "node_ids g = map node_id (nodes g)"

definition edge_pairs :: "DiagramGraph \<Rightarrow> (nat \<times> nat) list" where
  "edge_pairs g = map (\<lambda>e. (source e, target e)) (edges g)"

definition is_terminal :: "DiagramGraph \<Rightarrow> nat \<Rightarrow> bool" where
  "is_terminal g v = list_ex (\<lambda>n. node_id n = v \<and> (case kind n of terminal x \<Rightarrow> True | decision i \<Rightarrow> False)) (nodes g)"

text \<open>
  Modelled from the spec: the invariants of a \<^verbatim>\<open>DiagramGraph\<close>. Node ids are unique (the
  nodes are a set), edges join nodes of the graph, the graph is acyclic, and only
  decision nodes have outgoing edges.
\<close>

definition valid_graph :: "DiagramGraph \<Rightarrow> bool" where
  "valid_graph g =
     (distinct (node_ids g) \<and>
      list_all (\<lambda>e. source e \<in> set (node_ids g) \<and> target e \<in> set (node_ids g)
                  \<and> \<not> is_terminal g (source e)) (edges g) \<and>
      acyclic (set (edge_pairs g)))"

text \<open>
  Modelled from the spec: paths from the section's roots. The nodes reached from the
  roots by exactly \<open>j\<close> edges are the roots for \<open>j = 0\<close> and the successors of the
  previous level otherwise.
\<close>

definition succs :: "DiagramGraph \<Rightarrow> nat list \<Rightarrow> nat list" where
  "succs g us = map snd (filter (\<lambda>p. fst p \<in> set us) (edge_pairs g))"

fun reach :: "DiagramGraph \<Rightarrow> nat list \<Rightarrow> nat \<Rightarrow> nat list" where
  "reach g roots 0 = roots"
| "reach g roots (Suc j) = succs g (reach g roots j)"

text \<open>
  Modelled from the spec: "layer(node) = longest-path distance from the section's
  roots". The distance is the greatest number of edges, up to the bound \<open>k\<close>, of a path
  from a root to the node; \<open>None\<close> when no path leads to it. A path of an acyclic graph
  has fewer edges than the graph has nodes, so the number of nodes is the bound.
\<close>

fun longest_upto :: "DiagramGraph \<Rightarrow> nat list \<Rightarrow> nat \<Rightarrow> nat \<Rightarrow> nat option" where
  "longest_upto g roots v 0 = (if v \<in> set roots then Some 0 else None)"
| "longest_upto g roots v (Suc k) =
     (if v \<in> set (reach g roots (Suc k)) then Some (Suc k) else longest_upto g roots v k)"

text \<open>Modelled from the spec: the longest-path distance, bounded by the number of nodes.\<close>

definition longest_path :: "DiagramGraph \<Rightarrow> nat list \<Rightarrow> nat \<Rightarrow> nat option" where
  "longest_path g roots v = longest_upto g roots v (length (nodes g))"

text \<open>
  Modelled from the spec: "terminal nodes occupy the final layer". The final layer is the
  greatest longest-path distance of the graph.
\<close>

definition final_layer :: "DiagramGraph \<Rightarrow> nat list \<Rightarrow> nat" where
  "final_layer g roots =
     fold max (map (\<lambda>v. case longest_path g roots v of None \<Rightarrow> 0 | Some j \<Rightarrow> j) (node_ids g)) 0"

text \<open>
  Modelled from the spec: the layer of a node, the final layer for a terminal node and
  the longest-path distance otherwise.
\<close>

definition layer :: "DiagramGraph \<Rightarrow> nat list \<Rightarrow> nat \<Rightarrow> nat" where
  "layer g roots v =
     (if is_terminal g v then final_layer g roots
      else (case longest_path g roots v of None \<Rightarrow> 0 | Some j \<Rightarrow> j))"

text \<open>
  Modelled from the spec: the layout output, one entry per node of the laid-out graph
  with its layer (coordinates within a layer are left out: the specification fixes no
  spacing constants). A root that is no node of the graph, or a node that no path from
  the roots reaches, is the \<^verbatim>\<open>LayoutError\<close> of section 7.
\<close>

definition layout :: "DiagramGraph \<Rightarrow> nat list \<Rightarrow> layout_error + (nat \<times> nat) list" where
  "layout g roots =
     (if list_all (\<lambda>r. r \<in> set (node_ids g)) roots \<and>
         list_all (\<lambda>v. longest_path g roots v \<noteq> None) (node_ids g)
      then Inr (map (\<lambda>v. (v, layer g roots v)) (node_ids g))
      else Inl LayoutError)"

text \<open>The diamond of the specification's scenario: root 3, inner nodes 2 and 1, leaf 0.\<close>

definition diamond :: DiagramGraph where
  "diamond =
     \<lparr>nodes = [\<lparr>node_id = 3, kind = decision 0\<rparr>, \<lparr>node_id = 2, kind = decision 1\<rparr>,
               \<lparr>node_id = 1, kind = decision 1\<rparr>, \<lparr>node_id = 0, kind = terminal 1\<rparr>],
      edges = [\<lparr>source = 3, target = 2, label = 0\<rparr>, \<lparr>source = 3, target = 1, label = 1\<rparr>,
               \<lparr>source = 2, target = 0, label = 0\<rparr>, \<lparr>source = 1, target = 0, label = 1\<rparr>]\<rparr>"

section \<open>Properties of the selection tool\<close>

lemma apply_tool_release_plain:
  "type ev = ''release'' \<Longrightarrow> \<not> optional_ctrlKey ev \<Longrightarrow>
   apply_tool st drawer hits ev = st\<lparr>selection := local_nodes_to_sources drawer hits\<rparr>"
  by (simp add: apply_tool_def)

lemma apply_tool_release_additive:
  "type ev = ''release'' \<Longrightarrow> optional_ctrlKey ev \<Longrightarrow>
   apply_tool st drawer hits ev =
     st\<lparr>selection :=
          filter (\<lambda>n. n \<notin> set (local_nodes_to_sources drawer hits)) (selection st)
          @ local_nodes_to_sources drawer hits\<rparr>"
  by (simp add: apply_tool_def Let_def)

lemma set_additive_union:
  "set (filter (\<lambda>n. n \<notin> set src) old @ src) = set old \<union> set src"
  by auto

lemma distinct_additive:
  "distinct old \<Longrightarrow> distinct src \<Longrightarrow> distinct (filter (\<lambda>n. n \<notin> set src) old @ src)"
  by auto

text \<open>
  C1. On a release event: without the control key the committed selection becomes exactly
  the global ids of the hit nodes; with the control key it becomes the previous selection
  without the ids that are hit again, followed by the hit ids, so that as a set it is the
  union of both and no id shared by both is repeated (the result is duplicate-free
  whenever both parts are). The highlight is untouched. Committing 1,2 and then 3 yields
  3 without the modifier and 1,2,3 with it.
\<close>

theorem selection_release_commit:
  "type ev = ''release'' \<Longrightarrow>
   (\<not> optional_ctrlKey ev \<longrightarrow>
      selection (apply_tool st drawer hits ev) = local_nodes_to_sources drawer hits) \<and>
   (optional_ctrlKey ev \<longrightarrow>
      selection (apply_tool st drawer hits ev) =
        filter (\<lambda>n. n \<notin> set (local_nodes_to_sources drawer hits)) (selection st)
        @ local_nodes_to_sources drawer hits \<and>
      set (selection (apply_tool st drawer hits ev)) =
        set (selection st) \<union> set (local_nodes_to_sources drawer hits) \<and>
      (distinct (selection st) \<and> distinct (local_nodes_to_sources drawer hits) \<longrightarrow>
         distinct (selection (apply_tool st drawer hits ev)))) \<and>
   highlight (apply_tool st drawer hits ev) = highlight st \<and>
   selection (apply_tool (apply_tool st id_drawer [1, 2] (release_event a)) id_drawer [3]
                (release_event False)) = [3] \<and>
   selection (apply_tool (apply_tool st id_drawer [1, 2] (release_event False)) id_drawer [3]
                (release_event True)) = [1, 2, 3]"
proof -
  assume r: "type ev = ''release''"
  let ?src = "local_nodes_to_sources drawer hits"
  let ?new = "selection (apply_tool st drawer hits ev)"
  have plain: "\<not> optional_ctrlKey ev \<longrightarrow> ?new = ?src"
    using r by (simp add: apply_tool_release_plain)
  have add: "optional_ctrlKey ev \<longrightarrow>
      ?new = filter (\<lambda>n. n \<notin> set ?src) (selection st) @ ?src \<and>
      set ?new = set (selection st) \<union> set ?src \<and>
      (distinct (selection st) \<and> distinct ?src \<longrightarrow> distinct ?new)"
  proof
    assume c: "optional_ctrlKey ev"
    have eq: "?new = filter (\<lambda>n. n \<notin> set ?src) (selection st) @ ?src"
      using r c by (simp add: apply_tool_release_additive)
    show "?new = filter (\<lambda>n. n \<notin> set ?src) (selection st) @ ?src \<and>
      set ?new = set (selection st) \<union> set ?src \<and>
      (distinct (selection st) \<and> distinct ?src \<longrightarrow> distinct ?new)"
      unfolding eq using set_additive_union [of ?src "selection st"]
        distinct_additive [of "selection st" ?src] by simp
  qed
  have hl: "highlight (apply_tool st drawer hits ev) = highlight st"
    using r by (simp add: apply_tool_def Let_def)
  have ex1: "selection (apply_tool (apply_tool st id_drawer [1, 2] (release_event a)) id_drawer [3]
                (release_event False)) = [3]"
    by (simp add: apply_tool_def release_event_def id_drawer_def optional_ctrlKey_def)
  have ex2: "selection (apply_tool (apply_tool st id_drawer [1, 2] (release_event False))
                id_drawer [3] (release_event True)) = [1, 2, 3]"
    by (simp add: apply_tool_def release_event_def id_drawer_def optional_ctrlKey_def)
  show ?thesis
    by (intro conjI) (rule plain, rule add, rule hl, rule ex1, rule ex2)
qed

theorem selection_release_commit_witness:
  "type (release_event True) = ''release'' \<and>
   optional_ctrlKey (release_event True) \<and>
   selection (apply_tool \<lparr>selection = [1, 2], highlight = [9]\<rparr> id_drawer [2, 3]
                (release_event True)) = [1, 2, 3] \<and>
   highlight (apply_tool \<lparr>selection = [1, 2], highlight = [9]\<rparr> id_drawer [2, 3]
                (release_event True)) = [9]"
  using selection_release_commit
          [of "release_event True" "\<lparr>selection = [1, 2], highlight = [9]\<rparr>" id_drawer "[2, 3]"]
  by (simp add: release_event_def id_drawer_def optional_ctrlKey_def)

text \<open>
  C2. On every event whose type is not \<^verbatim>\<open>release\<close> (press, drag, hover) the global ids of
  the hit nodes are written to the highlight only, and the committed selection is
  unchanged.
\<close>

theorem non_release_highlight_only:
  "type ev \<noteq> ''release'' \<Longrightarrow>
   highlight (apply_tool st drawer hits ev) = local_nodes_to_sources drawer hits \<and>
   selection (apply_tool st drawer hits ev) = selection st \<and>
   apply_tool st drawer hits ev = st\<lparr>highlight := local_nodes_to_sources drawer hits\<rparr>"
  by (simp add: apply_tool_def Let_def)

theorem non_release_highlight_only_witness:
  "type \<lparr>type = ''drag'', event = Some \<lparr>ctrlKey = True\<rparr>\<rparr> \<noteq> ''release'' \<and>
   highlight (apply_tool \<lparr>selection = [1, 2], highlight = []\<rparr> id_drawer [3]
                \<lparr>type = ''drag'', event = Some \<lparr>ctrlKey = True\<rparr>\<rparr>) = [3] \<and>
   selection (apply_tool \<lparr>selection = [1, 2], highlight = []\<rparr> id_drawer [3]
                \<lparr>type = ''drag'', event = Some \<lparr>ctrlKey = True\<rparr>\<rparr>) = [1, 2]"
  using non_release_highlight_only
          [of "\<lparr>type = ''drag'', event = Some \<lparr>ctrlKey = True\<rparr>\<rparr>"
              "\<lparr>selection = [1, 2], highlight = []\<rparr>" id_drawer "[3]"]
  by (simp add: id_drawer_def)

section \<open>Properties of the vertex shader\<close>

lemma fsub_Fin: "fsub (Fin a) (Fin b) = Fin (a - b)"
  by (simp add: fsub_def)

lemma fmin_Fin: "fmin (Fin a) (Fin b) = Fin (min a b)"
  by (simp add: fmin_def min_def)



lemma fmul_one: "fmul w (Fin 1) = w"
  by (cases w) simp_all



lemma quotient_nonzero: "d \<noteq> 0 \<Longrightarrow> quotient t s d = Fin ((t - s) / d)"
  by (simp add: quotient_def fsub_Fin)



lemma positionPer_quotient:
  "positionPer u v = fmin (quotient (time u) (positionStartTime v) (positionDuration v)) (Fin 1)"
  by (simp add: positionPer_def quotient_def)


lemma positionPer_nonzero:
  "positionDuration v \<noteq> 0 \<Longrightarrow>
   positionPer u v = Fin (min ((time u - positionStartTime v) / positionDuration v) 1)"
  by (simp add: positionPer_quotient quotient_nonzero fmin_Fin)


lemma curPosition_components:
  "curPosition u v =
     (fadd (fmul (positionPer u v) (Fin (fst (position v))))
           (fmul (fsub (Fin 1) (positionPer u v)) (Fin (fst (positionOld v)))),
      fadd (fmul (positionPer u v) (Fin (snd (position v))))
           (fmul (fsub (Fin 1) (positionPer u v)) (Fin (snd (positionOld v)))))"
  by (simp add: curPosition_def add2_def scale2_def)


lemma curPosition_Fin:
  "positionPer u v = Fin p \<Longrightarrow>
   curPosition u v =
     (Fin (p * fst (position v) + (1 - p) * fst (positionOld v)),
      Fin (p * snd (position v) + (1 - p) * snd (positionOld v)))"
  by (simp add: curPosition_components fsub_Fin)







lemma sample_uniforms_simps:
  "transform (sample_uniforms t) = identity4" "time (sample_uniforms t) = t"
  "boundTextureIndex (sample_uniforms t) = 0"
  by (simp_all add: sample_uniforms_def)


lemma sample_vertex_position_simps:
  "position sample_vertex = (1, 0)" "positionOld sample_vertex = (0, 0)"
  "positionStartTime sample_vertex = 1" "positionDuration sample_vertex = 1"
  "textureIndex sample_vertex = 0"
  by (simp_all add: sample_vertex_def)






lemma positionPer_sample_end:
  "positionPer (sample_uniforms 2) (sample_vertex\<lparr>textureIndex := x\<rparr>) = Fin 1"
  by (simp add: positionPer_nonzero sample_uniforms_def sample_vertex_def)

lemma curPosition_sample_end:
  "curPosition (sample_uniforms 2) (sample_vertex\<lparr>textureIndex := x\<rparr>) = (Fin 1, Fin 0)"
  by (simp add: curPosition_Fin [OF positionPer_sample_end]) (simp add: sample_vertex_def)

lemma curPosition_sample_end_plain:
  "curPosition (sample_uniforms 2) sample_vertex = (Fin 1, Fin 0)"
  using curPosition_sample_end [of 0] by (simp add: sample_vertex_def)

lemma glsl_int_half: "glsl_int (1 / 2) = Some 0"
  by (simp add: glsl_int_def)

lemma glsl_int_zero: "glsl_int 0 = Some 0"
  by (simp add: glsl_int_def)

lemma glsl_int_three: "glsl_int 3 = Some 3"
  by (simp add: glsl_int_def)

lemma glsl_int_large: "glsl_int 10000000000 = None"
  by (simp add: glsl_int_def)

lemma glsl_int_of_int: "- (2 ^ 31) \<le> k \<Longrightarrow> k < 2 ^ 31 \<Longrightarrow> glsl_int (of_int k) = Some k"
  by (simp add: glsl_int_def)

lemma identity4_point:
  "mat_vec identity4 (Fin 1, Fin 0, Fin 0, Fin 1) = (Fin 1, Fin 0, Fin 0, Fin 1)"
  by (simp add: identity4_def)

lemma gl_Position_sample:
  "gl_Position (main (sample_uniforms 2) sample_vertex) = Some (Fin 2, Fin 0, Fin 0, Fin 1)"
  by (simp add: main_def curPosition_sample_end_plain sample_uniforms_simps identity4_point
      sample_vertex_position_simps glsl_int_zero)

lemma gl_Position_sample_half:
  "gl_Position (main (sample_uniforms 2) (sample_vertex\<lparr>textureIndex := 1 / 2\<rparr>))
     = Some (Fin 2, Fin 0, Fin 0, Fin 1)"
  by (simp add: main_def curPosition_sample_end glsl_int_half sample_uniforms_simps
      identity4_point)

lemma gl_Position_sample_three:
  "gl_Position (main (sample_uniforms 2) (sample_vertex\<lparr>textureIndex := 3\<rparr>))
     = Some (Fin 0, Fin 0, Fin 0, Fin 0)"
  by (simp add: main_def glsl_int_three sample_uniforms_simps)

lemma gl_Position_sample_large:
  "gl_Position (main (sample_uniforms 2) (sample_vertex\<lparr>textureIndex := 10000000000\<rparr>)) = None"
  by (simp add: main_def glsl_int_large)

lemma fvec4_components: "\<exists>x y z w. (q :: fvec4) = (x, y, z, w)"
  by (cases q) simp

lemma mul4_two: "mul4 (x, y, z, w) (2, 2, 2, 1) = (fmul x (Fin 2), fmul y (Fin 2), fmul z (Fin 2), w)"
  by (simp add: fmul_one)

lemma curPosition_cong:
  "time u = time u' \<Longrightarrow> position v = position v' \<Longrightarrow> positionOld v = positionOld v' \<Longrightarrow>
   positionStartTime v = positionStartTime v' \<Longrightarrow> positionDuration v = positionDuration v' \<Longrightarrow>
   curPosition u v = curPosition u' v'"
  by (simp add: curPosition_def positionPer_def)

lemma curExists_cong:
  "time u = time u' \<Longrightarrow> exists v = exists v' \<Longrightarrow> existsOld v = existsOld v' \<Longrightarrow>
   existsStartTime v = existsStartTime v' \<Longrightarrow> existsDuration v = existsDuration v' \<Longrightarrow>
   curExists (main u v) = curExists (main u' v')"
  by (simp add: main_def existsPer_def)

text \<open>
  C5 as stated fails in its last part: with the identity transform, a matching texture
  index and the animation finished at position (1, 0), the transform applied to the
  interpolated position is (1, 0, 0, 1) but the shader emits (2, 0, 0, 1). The texture
  test is made on the converted attribute: index 1/2 is not equal to the bound index 0,
  yet the vertex is not moved to (0, 0, 0, 0).
\<close>

theorem clip_position_counterexample:
  "real_of_int (boundTextureIndex (sample_uniforms 2)) = textureIndex sample_vertex \<and>
   curPosition (sample_uniforms 2) sample_vertex = (Fin 1, Fin 0) \<and>
   mat_vec (transform (sample_uniforms 2)) (Fin 1, Fin 0, Fin 0, Fin 1)
     = (Fin 1, Fin 0, Fin 0, Fin 1) \<and>
   gl_Position (main (sample_uniforms 2) sample_vertex) = Some (Fin 2, Fin 0, Fin 0, Fin 1) \<and>
   real_of_int (boundTextureIndex (sample_uniforms 2)) \<noteq> 1 / 2 \<and>
   gl_Position (main (sample_uniforms 2) (sample_vertex\<lparr>textureIndex := 1 / 2\<rparr>))
     = Some (Fin 2, Fin 0, Fin 0, Fin 1)"
  by (simp add: sample_uniforms_simps sample_vertex_position_simps identity4_point
      curPosition_sample_end_plain gl_Position_sample gl_Position_sample_half)

text \<open>
  C5, amended. The interpolated position and existence depend on the four animation
  fields of the attribute and the time uniform only. The texture index attribute is
  converted by \<^verbatim>\<open>int\<close>, which drops its fractional part. If the converted index differs
  from the bound texture index uniform, the vertex gets the position (0, 0, 0, 0);
  if it is equal, the clip position is the transform matrix applied to (x, y, 0, 1) of
  the interpolated position, with the first three components of the product doubled.
  An attribute that is a 32-bit integer is converted to itself; where the integer part
  of the attribute does not fit 32 bits the conversion, and with it the position, is not
  determined.
\<close>

theorem shader_vertex_position:
  "(glsl_int (textureIndex v) = None \<longrightarrow> gl_Position (main u v) = None) \<and>
   (\<forall>i. glsl_int (textureIndex v) = Some i \<and> boundTextureIndex u \<noteq> i \<longrightarrow>
      gl_Position (main u v) = Some (Fin 0, Fin 0, Fin 0, Fin 0)) \<and>
   (glsl_int (textureIndex v) = Some (boundTextureIndex u) \<longrightarrow>
      (\<exists>x y z w.
         mat_vec (transform u) (fst (curPosition u v), snd (curPosition u v), Fin 0, Fin 1)
           = (x, y, z, w) \<and>
         gl_Position (main u v) = Some (fmul x (Fin 2), fmul y (Fin 2), fmul z (Fin 2), w))) \<and>
   (textureIndex v = of_int k \<and> - (2 ^ 31) \<le> k \<and> k < 2 ^ 31 \<longrightarrow>
      glsl_int (textureIndex v) = Some k) \<and>
   (time u = time u' \<and> position v = position v' \<and> positionOld v = positionOld v' \<and>
    positionStartTime v = positionStartTime v' \<and> positionDuration v = positionDuration v' \<longrightarrow>
      curPosition u v = curPosition u' v') \<and>
   (time u = time u' \<and> exists v = exists v' \<and> existsOld v = existsOld v' \<and>
    existsStartTime v = existsStartTime v' \<and> existsDuration v = existsDuration v' \<longrightarrow>
      curExists (main u v) = curExists (main u' v'))"
proof (intro conjI impI allI)
  assume "glsl_int (textureIndex v) = None"
  then show "gl_Position (main u v) = None"
    by (simp add: main_def)
next
  fix i
  assume "glsl_int (textureIndex v) = Some i \<and> boundTextureIndex u \<noteq> i"
  then show "gl_Position (main u v) = Some (Fin 0, Fin 0, Fin 0, Fin 0)"
    by (simp add: main_def)
next
  assume m: "glsl_int (textureIndex v) = Some (boundTextureIndex u)"
  obtain x y z w where
    p: "mat_vec (transform u) (fst (curPosition u v), snd (curPosition u v), Fin 0, Fin 1)
          = (x, y, z, w)"
    using fvec4_components by blast
  from m have "gl_Position (main u v) = Some (fmul x (Fin 2), fmul y (Fin 2), fmul z (Fin 2), w)"
    by (simp add: main_def p fmul_one)
  with p show "\<exists>x y z w.
         mat_vec (transform u) (fst (curPosition u v), snd (curPosition u v), Fin 0, Fin 1)
           = (x, y, z, w) \<and>
         gl_Position (main u v) = Some (fmul x (Fin 2), fmul y (Fin 2), fmul z (Fin 2), w)"
    by blast
next
  assume "textureIndex v = of_int k \<and> - (2 ^ 31) \<le> k \<and> k < 2 ^ 31"
  then show "glsl_int (textureIndex v) = Some k"
    by (simp add: glsl_int_of_int)
next
  assume "time u = time u' \<and> position v = position v' \<and> positionOld v = positionOld v' \<and>
    positionStartTime v = positionStartTime v' \<and> positionDuration v = positionDuration v'"
  then show "curPosition u v = curPosition u' v'"
    by (intro curPosition_cong) simp_all
next
  assume "time u = time u' \<and> exists v = exists v' \<and> existsOld v = existsOld v' \<and>
    existsStartTime v = existsStartTime v' \<and> existsDuration v = existsDuration v'"
  then show "curExists (main u v) = curExists (main u' v')"
    by (intro curExists_cong) simp_all
qed

theorem shader_vertex_position_witness:
  "glsl_int (textureIndex (sample_vertex\<lparr>textureIndex := 3\<rparr>)) = Some 3 \<and>
   boundTextureIndex (sample_uniforms 2) \<noteq> 3 \<and>
   gl_Position (main (sample_uniforms 2) (sample_vertex\<lparr>textureIndex := 3\<rparr>))
     = Some (Fin 0, Fin 0, Fin 0, Fin 0) \<and>
   glsl_int (textureIndex sample_vertex) = Some (boundTextureIndex (sample_uniforms 2)) \<and>
   gl_Position (main (sample_uniforms 2) sample_vertex) = Some (Fin 2, Fin 0, Fin 0, Fin 1) \<and>
   glsl_int (textureIndex (sample_vertex\<lparr>textureIndex := 10000000000\<rparr>)) = None \<and>
   gl_Position (main (sample_uniforms 2) (sample_vertex\<lparr>textureIndex := 10000000000\<rparr>)) = None \<and>
   curPosition (sample_uniforms 2) sample_vertex
     = curPosition (sample_uniforms 2) (sample_vertex\<lparr>textureIndex := 3\<rparr>)"
  using shader_vertex_position
      [of "sample_vertex\<lparr>textureIndex := 3\<rparr>" "sample_uniforms 2" 3 "sample_uniforms 2" sample_vertex]
    shader_vertex_position
      [of sample_vertex "sample_uniforms 2" 0 "sample_uniforms 2" "sample_vertex\<lparr>textureIndex := 3\<rparr>"]
    shader_vertex_position
      [of "sample_vertex\<lparr>textureIndex := 10000000000\<rparr>" "sample_uniforms 2" 0 "sample_uniforms 2"
          sample_vertex]
  by (simp add: sample_uniforms_simps glsl_int_three glsl_int_zero glsl_int_large
      curPosition_sample_end curPosition_sample_end_plain gl_Position_sample
      gl_Position_sample_three gl_Position_sample_large sample_vertex_position_simps)

section \<open>Properties of the configuration dispatch\<close>

lemma ConfigTypeComp_find:
  "ConfigTypeComp instanceof val =
     (case find (instanceof val) handled_classes of
        None \<Rightarrow> Fragment
      | Some c \<Rightarrow> element_for c val)"
  by (simp add: ConfigTypeComp_def handled_classes_def)

lemma handled_classes_all: "set handled_classes = UNIV"
proof -
  have "c \<in> set handled_classes" for c
    by (cases c) (simp_all add: handled_classes_def)
  then show ?thesis by auto
qed

lemma element_for_not_Fragment: "element_for c val \<noteq> Fragment"
  by (cases c) simp_all

text \<open>
  C9. The dispatch returns an element for every value and every instance relation: the
  element of the first handled class, in the order of the tests, that the value is an
  instance of, and the empty fragment when there is none. So it returns the empty
  fragment exactly when the value is an instance of none of the nine classes.
\<close>

theorem ConfigTypeComp_total:
  "(\<exists>e. ConfigTypeComp instanceof val = e \<and>
        (e = Fragment \<or> (\<exists>c. instanceof val c \<and> e = element_for c val))) \<and>
   ((\<forall>c \<in> set handled_classes. \<not> instanceof val c) \<longrightarrow>
      ConfigTypeComp instanceof val = Fragment) \<and>
   (ConfigTypeComp instanceof val = Fragment \<longrightarrow> (\<forall>c. \<not> instanceof val c)) \<and>
   ConfigTypeComp instanceof val =
     (case find (instanceof val) handled_classes of
        None \<Rightarrow> Fragment
      | Some c \<Rightarrow> element_for c val)"
proof (intro conjI impI)
  show "\<exists>e. ConfigTypeComp instanceof val = e \<and>
        (e = Fragment \<or> (\<exists>c. instanceof val c \<and> e = element_for c val))"
    unfolding ConfigTypeComp_find
    by (auto split: option.splits simp: find_Some_iff)
next
  assume "\<forall>c \<in> set handled_classes. \<not> instanceof val c"
  then have "find (instanceof val) handled_classes = None"
    by (simp add: find_None_iff)
  then show "ConfigTypeComp instanceof val = Fragment"
    by (simp add: ConfigTypeComp_find)
next
  assume f: "ConfigTypeComp instanceof val = Fragment"
  have "find (instanceof val) handled_classes = None"
  proof (cases "find (instanceof val) handled_classes")
    case None
    then show ?thesis .
  next
    case (Some c)
    with f show ?thesis
      by (simp add: ConfigTypeComp_find element_for_not_Fragment)
  qed
  then show "\<forall>c. \<not> instanceof val c"
    by (simp add: find_None_iff handled_classes_all)
next
  show "ConfigTypeComp instanceof val =
     (case find (instanceof val) handled_classes of
        None \<Rightarrow> Fragment
      | Some c \<Rightarrow> element_for c val)"
    by (rule ConfigTypeComp_find)
qed

theorem ConfigTypeComp_total_witness:
  "\<not> list_ex (instance_of_listed []) handled_classes \<and>
   ConfigTypeComp (\<lambda>v. instance_of_listed v) [] = Fragment \<and>
   ConfigTypeComp (\<lambda>v. instance_of_listed v) [PanelConfig, FloatConfig]
     = Element FloatConfigComp [PanelConfig, FloatConfig] None"
  using ConfigTypeComp_total [of "\<lambda>v. instance_of_listed v" "[]"]
    ConfigTypeComp_total [of "\<lambda>v. instance_of_listed v" "[PanelConfig, FloatConfig]"]
  by (simp add: instance_of_listed_def handled_classes_def)

section \<open>Properties of the diagram summary\<close>

lemma load_dddump_disabled:
  "disabled (load_dddump_button isFileSource d) = (\<exists>s \<in> set (sections d). isFileSource s)"
  by (simp add: load_dddump_button_def canCreateFromFile_def list_ex_iff)

lemma load_buddy_rendered:
  "diagram_type d \<noteq> ''MTBDD'' \<Longrightarrow>
   \<exists>b. load_buddy_button isFileSource d = Some b \<and>
       disabled b = (\<exists>s \<in> set (sections d). isFileSource s)"
  by (simp add: load_buddy_button_def canCreateFromFile_def list_ex_iff)

lemma load_buddy_disabled:
  "load_buddy_button isFileSource d = Some b \<Longrightarrow>
   disabled b = (\<exists>s \<in> set (sections d). isFileSource s) \<and> onClick b = startCreatingBuddySection"
  by (auto simp: load_buddy_button_def canCreateFromFile_def list_ex_iff split: if_splits)

text \<open>
  The gate of the two file buttons: "Load from dddump" is disabled exactly when some
  section of the diagram is a file source; "Load from Buddy" is rendered exactly when the
  diagram's type is not MTBDD, and is then disabled under the same condition.
\<close>

lemma file_load_buttons_disabled:
  "disabled (load_dddump_button isFileSource d) = (\<exists>s \<in> set (sections d). isFileSource s) \<and>
   (diagram_type d \<noteq> ''MTBDD'' \<longrightarrow>
      (\<exists>b. load_buddy_button isFileSource d = Some b \<and>
           disabled b = (\<exists>s \<in> set (sections d). isFileSource s))) \<and>
   (diagram_type d = ''MTBDD'' \<longrightarrow> load_buddy_button isFileSource d = None)"
  using load_dddump_disabled [of isFileSource d] load_buddy_rendered [of d isFileSource]
  by (simp add: load_buddy_button_def)








section \<open>Properties of the section index mapper\<close>

lemma build_lookup_notin: "x \<notin> set gs \<Longrightarrow> build_lookup k gs m x = m x"
  by (induction gs arbitrary: k m) auto

lemma build_lookup_nth:
  "distinct gs \<Longrightarrow> j < length gs \<Longrightarrow> build_lookup k gs m (gs ! j) = Some (k + j)"
proof (induction gs arbitrary: k m j)
  case Nil
  then show ?case by simp
next
  case (Cons g gs)
  show ?case
  proof (cases j)
    case 0
    with Cons.prems show ?thesis
      by (simp add: build_lookup_notin)
  next
    case (Suc j')
    with Cons.prems have "build_lookup (Suc k) gs (m(g \<mapsto> k)) (gs ! j') = Some (Suc k + j')"
      by (intro Cons.IH) simp_all
    with Suc show ?thesis by simp
  qed
qed

lemma localToSource_valid:
  "valid_locals s locals \<Longrightarrow> localToSource s locals = Inr (map (\<lambda>i. sourceIds s ! i) locals)"
  by (induction locals) (simp_all add: valid_locals_def)

lemma localToSource_invalid:
  "\<not> valid_locals s locals \<Longrightarrow> localToSource s locals = Inl MappingError"
  by (induction locals) (auto simp: valid_locals_def split: sum.splits)

lemma sourceToLocal_nth:
  "distinct ids \<Longrightarrow> list_all (\<lambda>i. i < length ids) locals \<Longrightarrow>
   sourceToLocal (create ids) (map (\<lambda>i. ids ! i) locals) = locals"
  by (induction locals) (simp_all add: create_def build_lookup_nth)

text \<open>
  C6. For every section, created from a sequence that lists each global id once, and
  every sequence of valid local indices of it, mapping the local indices to global ids
  succeeds and mapping those back yields the original sequence. An index out of range
  makes the round trip fail with the mapping error.
\<close>

theorem round_trip_distinct:
  "distinct ids \<Longrightarrow>
   (valid_locals (create ids) locals \<longrightarrow>
      localToSource (create ids) locals = Inr (map (\<lambda>i. ids ! i) locals) \<and>
      sourceToLocal (create ids) (map (\<lambda>i. ids ! i) locals) = locals \<and>
      round_trip (create ids) locals = Inr locals) \<and>
   (\<not> valid_locals (create ids) locals \<longrightarrow> round_trip (create ids) locals = Inl MappingError)"
proof (intro conjI impI)
  assume d: "distinct ids" and v: "valid_locals (create ids) locals"
  have ids: "sourceIds (create ids) = ids"
    by (simp add: create_def)
  from localToSource_valid [OF v]
  show l: "localToSource (create ids) locals = Inr (map (\<lambda>i. ids ! i) locals)"
    by (simp add: ids)
  from v have "list_all (\<lambda>i. i < length ids) locals"
    by (simp add: valid_locals_def ids)
  from sourceToLocal_nth [OF d this]
  show b: "sourceToLocal (create ids) (map (\<lambda>i. ids ! i) locals) = locals" .
  show "round_trip (create ids) locals = Inr locals"
    by (simp add: round_trip_def l b)
next
  assume "\<not> valid_locals (create ids) locals"
  then show "round_trip (create ids) locals = Inl MappingError"
    by (simp add: round_trip_def localToSource_invalid)
qed

theorem round_trip_distinct_witness:
  "distinct [10, 20, 30 :: 32 word] \<and>
   valid_locals (create [10, 20, 30]) [2, 0, 2] \<and>
   localToSource (create [10, 20, 30]) [2, 0, 2] = Inr [30, 10, 30] \<and>
   round_trip (create [10, 20, 30]) [2, 0, 2] = Inr [2, 0, 2] \<and>
   \<not> valid_locals (create [10, 20, 30]) [3] \<and>
   round_trip (create [10, 20, 30]) [3] = Inl MappingError"
proof -
  have d: "distinct [10, 20, 30 :: 32 word]"
    by simp
  have v: "valid_locals (create [10, 20, 30]) [2, 0, 2]"
    by (simp add: valid_locals_def create_def)
  have n: "\<not> valid_locals (create [10, 20, 30]) [3]"
    by (simp add: valid_locals_def create_def)
  from round_trip_distinct [OF d, of "[2, 0, 2]"] round_trip_distinct [OF d, of "[3]"]
  show ?thesis
    using d v n by simp
qed

section \<open>Properties of the layer assignment\<close>

lemma set_succs: "set (succs g us) = set (edge_pairs g) `` set us"
  by (force simp: succs_def Image_def)

lemma set_reach: "set (reach g roots j) = (set (edge_pairs g) ^^ j) `` set roots"
proof (induction j)
  case 0
  show ?case by simp
next
  case (Suc j)
  have "set (reach g roots (Suc j)) = set (edge_pairs g) `` ((set (edge_pairs g) ^^ j) `` set roots)"
    by (simp add: set_succs Suc.IH)
  also have "\<dots> = (set (edge_pairs g) ^^ j O set (edge_pairs g)) `` set roots"
    by (simp add: relcomp_Image)
  finally show ?case by simp
qed

lemma ancestors_subset_Domain: "{u. (u, v) \<in> E\<^sup>+} \<subseteq> Domain E"
  by (auto dest: tranclD)

lemma relpow_card_ancestors:
  assumes "acyclic E" and "finite E"
  shows "(r, v) \<in> E ^^ j \<Longrightarrow> j \<le> card {u. (u, v) \<in> E\<^sup>+}"
proof (induction j arbitrary: v)
  case 0
  show ?case by simp
next
  case (Suc j)
  from Suc.prems obtain u where ru: "(r, u) \<in> E ^^ j" and uv: "(u, v) \<in> E"
    by auto
  let ?A = "\<lambda>x. {w. (w, x) \<in> E\<^sup>+}"
  have fin: "finite (?A v)"
  proof (rule finite_subset)
    show "?A v \<subseteq> Domain E"
      by (rule ancestors_subset_Domain)
    show "finite (Domain E)"
      using assms(2) by (rule finite_Domain)
  qed
  have sub: "insert u (?A u) \<subseteq> ?A v"
    using uv by (auto intro: trancl_into_trancl)
  have notin: "u \<notin> ?A u"
    using assms(1) by (simp add: acyclic_def)
  have finu: "finite (?A u)"
    using fin sub by (meson finite_subset insert_subset)
  have "Suc j \<le> Suc (card (?A u))"
    using Suc.IH [OF ru] by simp
  also have "\<dots> = card (insert u (?A u))"
    using finu notin by simp
  also have "\<dots> \<le> card (?A v)"
    using fin sub by (rule card_mono)
  finally show ?case .
qed

lemma valid_graph_edges_in_nodes:
  "valid_graph g \<Longrightarrow> Domain (set (edge_pairs g)) \<subseteq> set (node_ids g)"
  by (auto simp: valid_graph_def edge_pairs_def list_all_iff)

lemma reach_bound:
  assumes v: "valid_graph g" and r: "v \<in> set (reach g roots j)"
  shows "j \<le> length (nodes g)"
proof -
  let ?E = "set (edge_pairs g)"
  from r obtain r0 where "(r0, v) \<in> ?E ^^ j"
    by (auto simp: set_reach)
  moreover from v have "acyclic ?E"
    by (simp add: valid_graph_def)
  ultimately have "j \<le> card {u. (u, v) \<in> ?E\<^sup>+}"
    by (intro relpow_card_ancestors) simp_all
  also have "\<dots> \<le> card (set (node_ids g))"
  proof (rule card_mono)
    show "finite (set (node_ids g))" by simp
    have "{u. (u, v) \<in> ?E\<^sup>+} \<subseteq> Domain ?E"
      by (rule ancestors_subset_Domain)
    with valid_graph_edges_in_nodes [OF v]
    show "{u. (u, v) \<in> ?E\<^sup>+} \<subseteq> set (node_ids g)" by blast
  qed
  also have "\<dots> \<le> length (node_ids g)"
    by (rule card_length)
  finally show ?thesis by (simp add: node_ids_def)
qed

lemma longest_upto_Some:
  "longest_upto g roots v k = Some j \<Longrightarrow> j \<le> k \<and> v \<in> set (reach g roots j)"
  by (induction k) (auto split: if_splits)

lemma longest_upto_ge:
  "v \<in> set (reach g roots i) \<Longrightarrow> i \<le> k \<Longrightarrow> \<exists>j. longest_upto g roots v k = Some j \<and> i \<le> j"
proof (induction k)
  case 0
  then show ?case by simp
next
  case (Suc k)
  show ?case
  proof (cases "v \<in> set (reach g roots (Suc k))")
    case True
    with Suc.prems show ?thesis by simp
  next
    case False
    with Suc.prems have "i \<le> k"
      by (cases "i = Suc k") auto
    from Suc.IH [OF Suc.prems(1) this] False show ?thesis by simp
  qed
qed

lemma longest_path_edge:
  assumes v: "valid_graph g" and e: "(a, b) \<in> set (edge_pairs g)"
    and l: "longest_path g roots a = Some j"
  shows "\<exists>j'. longest_path g roots b = Some j' \<and> j < j'"
proof -
  from l have "a \<in> set (reach g roots j)"
    by (simp add: longest_path_def longest_upto_Some)
  with e have b: "b \<in> set (reach g roots (Suc j))"
    by (auto simp: set_succs)
  from reach_bound [OF v b] have "Suc j \<le> length (nodes g)" .
  from longest_upto_ge [OF b this] show ?thesis
    by (auto simp: longest_path_def)
qed

lemma fold_max_ge: "a \<le> fold max xs (a::nat)"
  by (induction xs arbitrary: a) (auto intro: order_trans [OF max.cobounded2])

lemma fold_max_mem: "x \<in> set xs \<Longrightarrow> x \<le> fold max xs (a::nat)"
proof (induction xs arbitrary: a)
  case Nil
  then show ?case by simp
next
  case (Cons y ys)
  show ?case
  proof (cases "x = y")
    case True
    have "x \<le> max y a" using True by simp
    also have "\<dots> \<le> fold max ys (max y a)" by (rule fold_max_ge)
    finally show ?thesis by simp
  next
    case False
    with Cons.prems have "x \<in> set ys" by simp
    from Cons.IH [OF this] show ?thesis by simp
  qed
qed

lemma final_layer_ge:
  "v \<in> set (node_ids g) \<Longrightarrow> longest_path g roots v = Some j \<Longrightarrow> j \<le> final_layer g roots"
  unfolding final_layer_def
  by (rule fold_max_mem) (force simp: image_iff)

lemma layer_edge:
  assumes v: "valid_graph g" and e: "e \<in> set (edges g)"
    and l: "longest_path g roots (source e) \<noteq> None"
  shows "layer g roots (source e) < layer g roots (target e)"
proof -
  from l obtain j where j: "longest_path g roots (source e) = Some j"
    by auto
  from e have p: "(source e, target e) \<in> set (edge_pairs g)"
    by (auto simp: edge_pairs_def)
  from longest_path_edge [OF v p j] obtain j' where
    j': "longest_path g roots (target e) = Some j'" and lt: "j < j'"
    by blast
  from v e have nt: "\<not> is_terminal g (source e)" and tn: "target e \<in> set (node_ids g)"
    by (auto simp: valid_graph_def list_all_iff)
  from final_layer_ge [OF tn j'] have "j' \<le> final_layer g roots" .
  with lt nt j j' show ?thesis
    by (simp add: layer_def)
qed

text \<open>
  The constraint of the specification on decision nodes follows: every node reachable
  from a node, whatever its variable index, lies on a strictly greater layer.
\<close>

lemma layer_reachable:
  assumes v: "valid_graph g"
    and all: "list_all (\<lambda>v. longest_path g roots v \<noteq> None) (node_ids g)"
    and r: "(a, b) \<in> (set (edge_pairs g))\<^sup>+"
  shows "layer g roots a < layer g roots b"
proof -
  have edge_lt: "layer g roots x < layer g roots y" if "(x, y) \<in> set (edge_pairs g)" for x y
  proof -
    from that obtain e where e: "e \<in> set (edges g)" and x: "x = source e" and y: "y = target e"
      by (auto simp: edge_pairs_def)
    from v e have "source e \<in> set (node_ids g)"
      by (auto simp: valid_graph_def list_all_iff)
    with all have "longest_path g roots (source e) \<noteq> None"
      by (simp add: list_all_iff)
    from layer_edge [OF v e this] show ?thesis
      by (simp add: x y)
  qed
  from r show ?thesis
  proof (induction rule: trancl_induct)
    case (base y)
    then show ?case by (rule edge_lt)
  next
    case (step y z)
    from step.IH edge_lt [OF step.hyps(2)] show ?case by (rule less_trans)
  qed
qed

lemma map_of_graph: "v \<in> set vs \<Longrightarrow> map_of (map (\<lambda>v. (v, f v)) vs) v = Some (f v)"
  by (induction vs) auto

lemma filter_fst_once:
  "distinct vs \<Longrightarrow> v \<in> set vs \<Longrightarrow> length (filter (\<lambda>p. fst p = v) (map (\<lambda>v. (v, f v)) vs)) = 1"
  by (induction vs) (auto simp: filter_empty_conv)

lemma diamond_valid: "valid_graph diamond"
proof -
  have "acyclic (set (edge_pairs diamond))"
    by (rule acyclicI_order [where f = "\<lambda>x. x"]) (auto simp: edge_pairs_def diamond_def)
  then show ?thesis
    by (simp add: valid_graph_def node_ids_def is_terminal_def diamond_def)
qed

lemma diamond_layout: "layout diamond [3] = Inr [(3, 0), (2, 1), (1, 1), (0, 2)]"
  by code_simp

text \<open>
  C8. For a valid graph whose layout succeeds, every edge leads from a node to a node of
  a strictly greater layer, and the output lists the graph's nodes once each: a node
  with several parents has exactly one entry.
\<close>

theorem layout_layers:
  assumes "valid_graph g" and "layout g roots = Inr out"
  shows "(\<forall>e \<in> set (edges g).
            \<exists>lu lv. map_of out (source e) = Some lu \<and> map_of out (target e) = Some lv \<and> lu < lv) \<and>
         (\<forall>v \<in> set (node_ids g). length (filter (\<lambda>p. fst p = v) out) = 1) \<and>
         map fst out = node_ids g"
proof -
  from assms(2) have out: "out = map (\<lambda>v. (v, layer g roots v)) (node_ids g)"
    and all: "list_all (\<lambda>v. longest_path g roots v \<noteq> None) (node_ids g)"
    by (auto simp: layout_def split: if_splits)
  have edges: "\<exists>lu lv. map_of out (source e) = Some lu \<and> map_of out (target e) = Some lv \<and> lu < lv"
    if e: "e \<in> set (edges g)" for e
  proof -
    from assms(1) e have s: "source e \<in> set (node_ids g)" and t: "target e \<in> set (node_ids g)"
      by (auto simp: valid_graph_def list_all_iff)
    from all s have "longest_path g roots (source e) \<noteq> None"
      by (simp add: list_all_iff)
    from layer_edge [OF assms(1) e this] show ?thesis
      by (simp add: out map_of_graph s t)
  qed
  have once: "length (filter (\<lambda>p. fst p = v) out) = 1" if "v \<in> set (node_ids g)" for v
    using assms(1) that unfolding out
    by (intro filter_fst_once) (simp_all add: valid_graph_def)
  have "map fst out = node_ids g"
    by (simp add: out comp_def)
  with edges once show ?thesis by blast
qed

theorem layout_layers_witness:
  "valid_graph diamond \<and>
   layout diamond [3] = Inr [(3, 0), (2, 1), (1, 1), (0, 2)] \<and>
   map_of [(3, 0), (2, 1), (1, 1), (0, 2 :: nat)] (2 :: nat) = Some 1 \<and>
   map_of [(3, 0), (2, 1), (1, 1), (0, 2 :: nat)] (0 :: nat) = Some 2 \<and>
   length (filter (\<lambda>p. fst p = 0) [(3, 0), (2, 1), (1, 1), (0 :: nat, 2 :: nat)]) = 1"
  using layout_layers [OF diamond_valid diamond_layout] diamond_valid diamond_layout
  by simp

end
